theory Spec2Isabelle
  imports Main
begin

section \<open>JavaScript strings\<close>

text \<open>
  Page text, attribute values and URLs are modelled as \<^typ>\<open>string\<close>: a list of code
  units below 256. All keys and tags of the keyword table are ASCII.
\<close>

definition is_whitespace :: "char \<Rightarrow> bool" where
  \<comment> \<open>the class \<open>\s\<close> of a regular expression, on code units below 256\<close>
  "is_whitespace c \<longleftrightarrow>
     c \<in> set [CHR 0x09, CHR 0x0A, CHR 0x0B, CHR 0x0C, CHR 0x0D, CHR 0x20, CHR 0xA0]"

text \<open>
  \<open>text.split(/\s+/)\<close>: the pieces between maximal runs of white space. White space at
  the start or at the end of the text yields an empty first or last piece, and the empty
  text yields one empty piece.
\<close>

function split_whitespace_from :: "string \<Rightarrow> string \<Rightarrow> string list" where
  "split_whitespace_from piece [] = [piece]"
| "split_whitespace_from piece (c # cs) =
     (if is_whitespace c
      then piece # split_whitespace_from [] (dropWhile is_whitespace cs)
      else split_whitespace_from (piece @ [c]) cs)"
  by pat_completeness auto
termination
  by (relation "measure (\<lambda>(piece, cs). length cs)")
     (auto simp: length_dropWhile_le less_Suc_eq_le)

definition split_whitespace :: "string \<Rightarrow> string list" where
  "split_whitespace s = split_whitespace_from [] s"

text \<open>\<open>s.split(sep)\<close> for a separator of one character.\<close>

fun split_from :: "char \<Rightarrow> string \<Rightarrow> string \<Rightarrow> string list" where
  "split_from sep piece [] = [piece]"
| "split_from sep piece (c # cs) =
     (if c = sep then piece # split_from sep [] cs else split_from sep (piece @ [c]) cs)"

definition split_char :: "char \<Rightarrow> string \<Rightarrow> string list" where
  "split_char sep s = split_from sep [] s"

text \<open>\<open>xs.join(sep)\<close>.\<close>

fun join :: "string \<Rightarrow> string list \<Rightarrow> string" where
  "join sep [] = []"
| "join sep [x] = x"
| "join sep (x # y # ys) = x @ sep @ join sep (y # ys)"

text \<open>\<open>s.trim()\<close>.\<close>

definition trim :: "string \<Rightarrow> string" where
  "trim s = rev (dropWhile is_whitespace (rev (dropWhile is_whitespace s)))"

text \<open>\<open>s.toLowerCase()\<close> on code units below 256.\<close>

definition lower_char :: "char \<Rightarrow> char" where
  "lower_char c =
     (let n = (of_char c :: nat)
      in if (65 \<le> n \<and> n \<le> 90) \<or> (192 \<le> n \<and> n \<le> 222 \<and> n \<noteq> 215)
         then char_of (n + 32) else c)"

definition toLowerCase :: "string \<Rightarrow> string" where
  "toLowerCase s = map lower_char s"

text \<open>
  \<open>word.replace(wordTrimmer, "$1")\<close> with
  \<open>wordTrimmer = /^[\('"]?(.*?)[,\.\?\!:;\)'"]?$/g\<close>. The optional first class is greedy,
  the group is lazy and the optional last class is greedy again: one opening character is
  removed from the front, then one closing character from the end of what is left. A word
  of \<open>split_whitespace\<close> holds no line terminator, so the expression always matches
  the whole word, once.
\<close>

definition wordTrimmer_open :: "char list" where
  "wordTrimmer_open = [CHR ''('', CHR 0x27, CHR 0x22]"

definition wordTrimmer_close :: "char list" where
  "wordTrimmer_close =
     [CHR '','', CHR ''.'', CHR ''?'', CHR ''!'', CHR '':'', CHR '';'', CHR '')'', CHR 0x27, CHR 0x22]"

definition replace_wordTrimmer :: "string \<Rightarrow> string" where
  "replace_wordTrimmer w =
     (let rest = (case w of [] \<Rightarrow> [] | c # cs \<Rightarrow> if c \<in> set wordTrimmer_open then cs else w)
      in if rest \<noteq> [] \<and> last rest \<in> set wordTrimmer_close then butlast rest else rest)"

section \<open>Constants\<close>

definition AD_CLIENT_VERSION :: string where "AD_CLIENT_VERSION = ''1.6.2''"
definition AD_DECISION_URL :: string where
  "AD_DECISION_URL = ''https://server.ethicalads.io/api/v1/decision/''"
definition AD_TYPES_VERSION :: string where "AD_TYPES_VERSION = ''1''"  \<comment> \<open>the number 1, as it is written into a string\<close>
definition ATTR_PREFIX :: string where "ATTR_PREFIX = ''data-ea-''"
definition ABP_DETECTION_PX :: string where
  "ABP_DETECTION_PX = ''https://media.ethicalads.io/abp/px.gif''"

definition KEYWORDS :: "(string \<times> string) list" where
  "KEYWORDS = [
  (''android'', ''android''), (''ios'', ''ios''), (''iphone'', ''ios''),
     (''blockchain'', ''blockchain''), (''bitcoin'', ''bitcoin''),
     (''ethereum'', ''ethereum''), (''hyperledger'', ''hyperledger''),
     (''solidity'', ''solidity''), (''cryptography'', ''cryptography''),
     (''security'', ''security''), (''infosec'', ''security''), (''privacy'', ''privacy''),
     (''authentication'', ''authentication''), (''authorization'', ''authorization''),
     (''otp'', ''otp''), (''2fa'', ''2fa''), (''mfa'', ''mfa''), (''sms'', ''sms''),
     (''frontend'', ''frontend''), (''backend'', ''backend''), (''full-stack'', ''backend''),
     (''devops'', ''devops''), (''ai'', ''artificial-intelligence''), (''nlp'', ''nlp''),
     (''ml'', ''machine-learning''), (''cloud'', ''cloud''), (''api'', ''api''),
     (''docker'', ''docker''), (''kubernetes'', ''kubernetes''),
     (''container'', ''containers''), (''containers'', ''containers''),
     (''ansible'', ''ansible''), (''serverless'', ''serverless''),
     (''openshift'', ''openshift''), (''terraform'', ''terraform''),
     (''openid'', ''openid''), (''aws'', ''aws''), (''azure'', ''azure''),
     (''gcp'', ''gcp''), (''linux'', ''linux''), (''ubuntu'', ''ubuntu''),
     (''monitoring'', ''monitoring''), (''redis'', ''redis''), (''rabbitmq'', ''rabbitmq''),
     (''nosql'', ''nosql''), (''postgres'', ''postgresql''),
     (''postgresql'', ''postgresql''), (''mysql'', ''mysql''), (''database'', ''database''),
     (''testing'', ''testing''), (''pytest'', ''pytest''), (''lint'', ''lint''),
     (''linting'', ''lint''), (''pylint'', ''pylint''), (''unittest'', ''unittest''),
     (''ci'', ''ci''), (''cd'', ''cd''), (''tdd'', ''test-driven-development''),
     (''elasticsearch'', ''elasticsearch''), (''lucene'', ''lucene''), (''solr'', ''solr''),
     (''nginx'', ''nginx''), (''heroku'', ''heroku''), (''spa'', ''spa''),
     (''django'', ''django''), (''rails'', ''rails''), (''angular'', ''angular''),
     (''angularjs'', ''angular''), (''laravel'', ''laravel''), (''react'', ''reactjs''),
     (''reactjs'', ''reactjs''), (''react-native'', ''reactjs''), (''jupyter'', ''jupyter''),
     (''matplotlib'', ''matplotlib''), (''pytorch'', ''pytorch''), (''pydata'', ''pydata''),
     (''pandas'', ''pandas''), (''numpy'', ''numpy''), (''wsgi'', ''wsgi''),
     (''celery'', ''celery''), (''jinja'', ''jinja''), (''jinja2'', ''jinja''),
     (''flask'', ''flask''), (''werkzeug'', ''werkzeug''), (''oauth'', ''oauth''),
     (''vuejs'', ''vuejs''), (''vue'', ''vuejs''), (''tensorflow'', ''tensorflow''),
     (''tensor'', ''tensor''), (''webpack'', ''webpack''), (''dotnet'', ''dotnet''),
     (''.net'', ''dotnet''), (''c#'', ''c-sharp''), (''c++'', ''cplusplus''),
     (''erlang'', ''erlang''), (''f#'', ''fsharp''), (''golang'', ''golang''),
     (''haskell'', ''haskell''), (''java'', ''java''), (''javascript'', ''javascript''),
     (''julia'', ''julia''), (''kotlin'', ''kotlin''), (''obj-c'', ''obj-c''),
     (''objective-c'', ''obj-c''), (''php'', ''php''), (''python'', ''python''),
     (''perl'', ''perl''), (''sql'', ''sql''), (''ruby'', ''ruby''), (''rust'', ''rust''),
     (''scala'', ''scala''), (''swift'', ''swift''), (''css'', ''css''),
     (''scss'', ''scss''), (''typescript'', ''typescript''), (''redux'', ''redux'')
  ]"

definition MAX_WORDS_ANALYZED :: nat where "MAX_WORDS_ANALYZED = 9999"
definition MAX_KEYWORDS :: nat where "MAX_KEYWORDS = 3"
definition MIN_KEYWORD_OCCURRENCES :: nat where "MIN_KEYWORD_OCCURRENCES = 2"
definition VIEW_TIME_INTERVAL :: int where "VIEW_TIME_INTERVAL = 1"
definition VIEW_TIME_MAX :: int where "VIEW_TIME_MAX = 5 * 60"

section \<open>Keyword detection\<close>

text \<open>
  The part of the document that \<open>detectKeywords\<close> reads: the text content of the first
  element with \<open>role='main'\<close>, of the first \<open>main\<close> element and of the body. An HTML
  document always has a body.
\<close>

record content =
  role_main :: "string option"
  main_element :: "string option"
  body :: string

definition mainContent :: "content \<Rightarrow> string" where
  "mainContent page =
     (case role_main page of Some t \<Rightarrow> t
      | None \<Rightarrow> (case main_element page of Some t \<Rightarrow> t | None \<Rightarrow> body page))"

text \<open>
  \<open>keywordHist\<close> is an object used as a dictionary. \<open>Object.entries\<close> lists its keys in
  the order of their first insertion (no tag is an array index), so it is an association
  list: a known tag is counted in place, a new one is added at the end.
\<close>

type_synonym hist = "(string \<times> nat) list"

fun hist_count :: "string \<Rightarrow> hist \<Rightarrow> hist" where
  "hist_count tag [] = [(tag, 1)]"
| "hist_count tag ((t, n) # h) =
     (if t = tag then (t, n + 1) # h else (t, n) # hist_count tag h)"

text \<open>The body of the \<open>for\<close> loop over the words, and the loop.\<close>

definition normalise :: "string \<Rightarrow> string" where
  "normalise w = toLowerCase (replace_wordTrimmer w)"

fun count_words :: "string list \<Rightarrow> hist \<Rightarrow> hist" where
  "count_words [] keywordHist = keywordHist"
| "count_words (w # ws) keywordHist =
     (case map_of KEYWORDS (normalise w) of
        Some tag \<Rightarrow> count_words ws (hist_count tag keywordHist)
      | None \<Rightarrow> count_words ws keywordHist)"

text \<open>
  \<open>Array.prototype.sort\<close> is stable; the comparison function puts the larger count first.
\<close>

definition compare_counts :: "string \<times> nat \<Rightarrow> string \<times> nat \<Rightarrow> int" where
  "compare_counts a b = (if snd a > snd b then - 1 else if snd a < snd b then 1 else 0)"

fun insert_by :: "('a \<Rightarrow> 'a \<Rightarrow> int) \<Rightarrow> 'a \<Rightarrow> 'a list \<Rightarrow> 'a list" where
  "insert_by cmp x [] = [x]"
| "insert_by cmp x (y # ys) =
     (if cmp x y \<le> 0 then x # y # ys else y # insert_by cmp x ys)"

definition sort_by :: "('a \<Rightarrow> 'a \<Rightarrow> int) \<Rightarrow> 'a list \<Rightarrow> 'a list" where
  "sort_by cmp xs = foldr (insert_by cmp) xs []"

definition page_words :: "content \<Rightarrow> string list" where
  "page_words page = take MAX_WORDS_ANALYZED (split_whitespace (mainContent page))"

definition scan_keywords :: "content \<Rightarrow> string list" where
  "scan_keywords page =
     map fst (take MAX_KEYWORDS (sort_by compare_counts
       (filter (\<lambda>a. snd a \<ge> MIN_KEYWORD_OCCURRENCES) (count_words (page_words page) []))))"

text \<open>
  \<open>detectKeywords\<close> with the module variable \<open>detectedKeywords\<close> passed in and returned.
  The variable starts as \<open>null\<close> (\<open>None\<close>); an array, also an empty one, is truthy.
\<close>

definition detectKeywords :: "string list option \<Rightarrow> content \<Rightarrow> string list \<times> string list option" where
  "detectKeywords detectedKeywords page =
     (case detectedKeywords of
        Some cached \<Rightarrow> (cached, detectedKeywords)
      | None \<Rightarrow> (let keywords = scan_keywords page in (keywords, Some keywords)))"

section \<open>Values, errors and promises\<close>

text \<open>
  The values that \<open>fetch\<close> and \<open>load\<close> resolve with: \<open>Element markup\<close> is the first
  child of a \<open>div\<close> whose \<open>innerHTML\<close> is the markup.
\<close>

datatype js_value = Undefined | Null | Element string

datatype error = Error string | EthicalAdsWarning string

datatype 'a promise = Pending | Resolved 'a | Rejected error

text \<open>The \<open>resolve\<close> function of a promise: a settled promise stays as it is.\<close>

definition resolve :: "'a \<Rightarrow> 'a promise \<Rightarrow> 'a promise" where
  "resolve v p = (case p of Pending \<Rightarrow> Resolved v | _ \<Rightarrow> p)"

text \<open>A string that may be absent (\<open>null\<close> or \<open>undefined\<close>) is truthy when present and not empty.\<close>

definition truthy :: "string option \<Rightarrow> bool" where
  "truthy v = (case v of None \<Rightarrow> False | Some s \<Rightarrow> s \<noteq> [])"

definition or_empty :: "string option \<Rightarrow> string" where
  \<comment> \<open>\<open>v || ""\<close>\<close>
  "or_empty v = (case v of None \<Rightarrow> [] | Some s \<Rightarrow> s)"

section \<open>The document\<close>

datatype control = StickyboxHide | FixedfooterHide

datatype node =
    Ad string "control list"  \<comment> \<open>the element of the markup, with the controls appended to it\<close>
  | Pixel string  \<comment> \<open>an \<open>img\<close> of class \<open>ea-pixel\<close> with its \<open>src\<close>\<close>
  | Child string  \<comment> \<open>any other node\<close>

record element =
  attributes :: "(string \<times> string) list"
  className :: string
  element_id :: string
  children :: "node list"

definition getAttribute :: "string \<Rightarrow> element \<Rightarrow> string option" where
  "getAttribute name e = map_of (attributes e) name"

definition setAttribute :: "string \<Rightarrow> string \<Rightarrow> element \<Rightarrow> element" where
  "setAttribute name v e =
     e\<lparr>attributes := (if name \<in> fst ` set (attributes e)
                        then map (\<lambda>(k, w). if k = name then (k, v) else (k, w)) (attributes e)
                        else attributes e @ [(name, v)])\<rparr>"

definition appendChild :: "node \<Rightarrow> element \<Rightarrow> element" where
  "appendChild n e = e\<lparr>children := children e @ [n]\<rparr>"

record decision_response =
  html :: "string option"
  view_url :: "string option"
  view_time_url :: "string option"

section \<open>Placement\<close>

datatype console_level = ConsoleDebug | ConsoleError

type_synonym console_log = "(console_level \<times> string) list"

record placement_options =
  opt_keywords :: "string list option"
  opt_style :: "string option"
  opt_campaign_types :: "string list option"
  opt_load_manually :: bool
  opt_force_ad :: "string option"
  opt_force_campaign :: "string option"

record placement =
  publisher :: "string option"
  ad_type :: string
  target :: element
  options :: placement_options
  style :: "string option"
  keyword_list :: "string list"  \<comment> \<open>the field \<open>keywords\<close>\<close>
  load_manually :: bool
  force_ad :: "string option"
  force_campaign :: "string option"
  campaign_types :: "string list"
  view_time :: int
  view_time_sent :: bool
  response :: "decision_response option"

text \<open>The constructor.\<close>

definition Placement ::
  "string option \<Rightarrow> string \<Rightarrow> element \<Rightarrow> placement_options \<Rightarrow> placement" where
  "Placement publisher' ad_type' target' options' =
     \<lparr> publisher = publisher',
       ad_type = ad_type',
       target = target',
       options = options',
       style = opt_style options',
       keyword_list = (case opt_keywords options' of Some ks \<Rightarrow> ks | None \<Rightarrow> []),
       load_manually = opt_load_manually options',
       force_ad = opt_force_ad options',
       force_campaign = opt_force_campaign options',
       campaign_types =
         (let given = (case opt_campaign_types options' of Some ts \<Rightarrow> ts | None \<Rightarrow> [])
          in if length given = 0
             then [''paid'', ''publisher-house'', ''community'', ''house'']
             else given),
       view_time = 0,
       view_time_sent = False,
       response = None \<rparr>"

text \<open>
  \<open>Placement.from_element\<close>, with the console passed in and returned. The element is
  returned too: a missing or empty type attribute is set on it before anything else.
\<close>

definition from_element ::
  "element \<Rightarrow> console_log \<Rightarrow> element \<times> console_log \<times> placement option" where
  "from_element element0 console0 =
     (let publisher' = getAttribute (ATTR_PREFIX @ ''publisher'') element0;
          type_attribute = getAttribute (ATTR_PREFIX @ ''type'') element0;
          untyped = \<not> truthy type_attribute;
          ad_type0 = (if untyped then ''image'' else or_empty type_attribute);
          element1 = (if untyped then setAttribute (ATTR_PREFIX @ ''type'') ''image'' element0
                      else element0);
          keywords' = filter (\<lambda>word. length word > 1)
            (split_char CHR ''|'' (or_empty (getAttribute (ATTR_PREFIX @ ''keywords'') element1)));
          campaign_types' = filter (\<lambda>word. length word > 1)
            (split_char CHR ''|'' (or_empty (getAttribute (ATTR_PREFIX @ ''campaign-types'') element1)));
          load_manually' = (getAttribute (ATTR_PREFIX @ ''manual'') element1 = Some ''true'');
          style' = getAttribute (ATTR_PREFIX @ ''style'') element1;
          force_ad' = getAttribute (ATTR_PREFIX @ ''force-ad'') element1;
          force_campaign' = getAttribute (ATTR_PREFIX @ ''force-campaign'') element1;
          ad_type1 = (if ad_type0 = ''image'' \<or> ad_type0 = ''text''
                      then ad_type0 @ ''-v'' @ AD_TYPES_VERSION else ad_type0);
          classes = split_char CHR '' '' (className element1)
      in if ''loaded'' \<in> set classes
         then (element1, console0 @ [(ConsoleError, ''EthicalAd already loaded.'')], None)
         else (element1, console0,
               Some (Placement publisher' ad_type1 element1
                 \<lparr> opt_keywords = Some keywords',
                   opt_style = style',
                   opt_campaign_types = Some campaign_types',
                   opt_load_manually = load_manually',
                   opt_force_ad = force_ad',
                   opt_force_campaign = force_campaign' \<rparr>)))"

section \<open>The request to the decision service\<close>

text \<open>
  What the browser supplies to a request: the callback name
  \<open>"ad_" + Date.now() + "_" + Math.floor(Math.random() * 1000000)\<close> of the request with
  a given number, \<open>window.location.origin + window.location.pathname\<close>, and whether a
  markup parses to at least one node.
\<close>

record browser =
  callback_name :: "nat \<Rightarrow> string"
  location :: string
  has_firstChild :: "string \<Rightarrow> bool"

text \<open>
  The \<open>params\<close> object of \<open>fetch\<close>, in the order of its keys. \<open>URLSearchParams\<close> writes
  an absent publisher as \<open>null\<close>.
\<close>

definition fetch_params :: "placement \<Rightarrow> string \<Rightarrow> string \<Rightarrow> (string \<times> string) list" where
  "fetch_params this callback href =
     (let div_id = (if element_id (target this) \<noteq> [] then element_id (target this) else callback)
      in [(''publisher'', (case publisher this of Some p \<Rightarrow> p | None \<Rightarrow> ''null'')),
          (''ad_types'', ad_type this),
          (''div_ids'', div_id),
          (''callback'', callback),
          (''keywords'', join ''|'' (keyword_list this)),
          (''campaign_types'', join ''|'' (campaign_types this)),
          (''format'', ''jsonp''),
          (''client_version'', AD_CLIENT_VERSION),
          (''url'', take 256 href)]
         @ (if truthy (force_ad this) then [(''force_ad'', or_empty (force_ad this))] else [])
         @ (if truthy (force_campaign this)
            then [(''force_campaign'', or_empty (force_campaign this))] else []))"

text \<open>
  \<open>fetch\<close> appends a script element to the head, whose address is \<open>AD_DECISION_URL\<close>
  with the parameters as its query, and returns a pending promise. The browser then
  either runs the script, which calls \<open>window[callback]\<close> with the response, or fires
  the error event of the script element.
\<close>

record script =
  script_url :: string
  script_params :: "(string \<times> string) list"

definition fetch :: "placement \<Rightarrow> string \<Rightarrow> string \<Rightarrow> script \<times> js_value promise" where
  "fetch this callback href =
     (\<lparr> script_url = AD_DECISION_URL, script_params = fetch_params this callback href \<rparr>,
      Pending)"

definition window_callback ::
  "browser \<Rightarrow> decision_response option \<Rightarrow> placement \<times> js_value promise
     \<Rightarrow> placement \<times> js_value promise" where
  "window_callback br response' state =
     (case state of (this, promise) \<Rightarrow>
        (case response' of
           None \<Rightarrow> (this, resolve Null promise)
         | Some r \<Rightarrow>
             if truthy (html r) \<and> truthy (view_url r)
             then (this\<lparr>response := Some r\<rparr>,
                   resolve (if has_firstChild br (or_empty (html r))
                            then Element (or_empty (html r)) else Null) promise)
             else (this, resolve Null promise)))"

definition script_error :: "placement \<times> js_value promise \<Rightarrow> placement \<times> js_value promise" where
  "script_error state = (case state of (this, promise) \<Rightarrow> (this, resolve Undefined promise))"

section \<open>Displaying the ad and tracking its view\<close>

text \<open>\<open>applyStyles\<close>: the controls appended to the ad element.\<close>

definition applyStyles :: "placement \<Rightarrow> control list" where
  "applyStyles this =
     (if style this = Some ''stickybox'' then [StickyboxHide] else [])
     @ (if style this = Some ''fixedfooter'' then [FixedfooterHide] else [])"

text \<open>
  The first \<open>then\<close> of \<open>load\<close>: it throws a warning when the request was blocked or no
  ad came back, and otherwise marks the target as loaded and makes the ad its only child.
  The first node of the markup is taken to be an element, as the decision service sends
  it, so that \<open>applyStyles\<close> can append its control to that node.
\<close>

definition load_display :: "placement \<Rightarrow> js_value \<Rightarrow> error + placement" where
  "load_display this fetched =
     (case fetched of
        Undefined \<Rightarrow> Inl (EthicalAdsWarning ''Ad decision request blocked'')
      | Null \<Rightarrow> Inl (EthicalAdsWarning ''No ads to show.'')
      | Element markup \<Rightarrow>
          Inr (this\<lparr>target := (target this)
                 \<lparr>className := trim (className (target this) @ '' loaded''),
                  children := [Ad markup (applyStyles this)]\<rparr>\<rparr>))"

text \<open>
  The second \<open>then\<close> of \<open>load\<close> starts two interval timers and registers a listener
  for \<open>visibilitychange\<close>. Each of the three is on (\<open>True\<close>) until it is cleared or
  removed. A \<open>tracking\<close> holds the placement with the timers and the listener of one
  call of \<open>load\<close>. The timers are local to that call, the view time is a field of the
  placement: another call of \<open>load\<close> on the same placement starts timers of its own on
  the view time that it finds, which is \<open>load_track\<close> on the placement as it is then.
\<close>

record tracking =
  tracked :: placement
  viewport_detection :: bool
  view_time_counter :: bool
  visibility_change_listener :: bool

definition load_track :: "placement \<Rightarrow> tracking" where
  "load_track this =
     \<lparr> tracked = this, viewport_detection = True, view_time_counter = True,
       visibility_change_listener = True \<rparr>"

text \<open>What a callback sees of the page when it runs.\<close>

datatype visibility = Visible | Hidden | Prerender | Unloaded

record view =
  verge_inViewport :: bool  \<comment> \<open>\<open>verge.inViewport(element, VIEWPORT_FUDGE_FACTOR)\<close>\<close>
  visibilityState :: visibility
  uplift :: bool  \<comment> \<open>the module variable \<open>uplifted\<close>\<close>

definition inViewport :: "placement \<Rightarrow> view \<Rightarrow> bool" where
  "inViewport this v =
     (case response this of
        None \<Rightarrow> False
      | Some r \<Rightarrow> truthy (view_url r) \<and> verge_inViewport v \<and> visibilityState v = Visible)"

definition digit_char :: "nat \<Rightarrow> char" where
  "digit_char d = char_of (48 + d)"

fun decimal :: "nat \<Rightarrow> string" where
  "decimal n = (if n < 10 then [digit_char n] else decimal (n div 10) @ [digit_char (n mod 10)])"

definition number_string :: "int \<Rightarrow> string" where
  "number_string i = (if i < 0 then ''-'' @ decimal (nat (- i)) else decimal (nat i))"

definition append_pixel :: "string \<Rightarrow> placement \<Rightarrow> placement" where
  "append_pixel src this = this\<lparr>target := appendChild (Pixel src) (target this)\<rparr>"

text \<open>
  The callback of the timer \<open>viewport_detection\<close>. The address of the pixel is written
  as the code puts it together, from the \<open>view_url\<close> as the response gives it.
\<close>

definition viewport_detection_tick :: "view \<Rightarrow> tracking \<Rightarrow> tracking" where
  "viewport_detection_tick v t =
     (if inViewport (tracked t) v
      then (case response (tracked t) of
              None \<Rightarrow> t
            | Some r \<Rightarrow>
                t\<lparr>tracked := append_pixel
                       (or_empty (view_url r) @ (if uplift v then ''?uplift=true'' else []))
                       (tracked t),
                  viewport_detection := False\<rparr>)
      else t)"

text \<open>The callback of the timer \<open>view_time_counter\<close>.\<close>

definition view_time_counter_tick :: "view \<Rightarrow> tracking \<Rightarrow> tracking" where
  "view_time_counter_tick v t =
     (if view_time_sent (tracked t) then t\<lparr>view_time_counter := False\<rparr>
      else if inViewport (tracked t) v
      then (let placement' = (tracked t)\<lparr>view_time := view_time (tracked t) + VIEW_TIME_INTERVAL\<rparr>
            in if view_time placement' \<ge> VIEW_TIME_MAX
               then t\<lparr>tracked := placement', view_time_counter := False\<rparr>
               else t\<lparr>tracked := placement'\<rparr>)
      else t)"

text \<open>
  The listener \<open>visibility_change_listener\<close>. Reading \<open>view_time_url\<close> of an absent
  response would throw inside the listener and change nothing.
\<close>

definition visibility_change :: "view \<Rightarrow> tracking \<Rightarrow> tracking" where
  "visibility_change v t =
     (let this = tracked t in
      if view_time this \<le> 0 \<or> view_time_sent this then t
      else case response this of
        None \<Rightarrow> t
      | Some r \<Rightarrow>
          if \<not> truthy (view_time_url r) then t
          else if visibilityState v = Hidden \<or> visibilityState v = Unloaded
          then t\<lparr>tracked := (append_pixel
                     (or_empty (view_time_url r) @ ''?view_time='' @ number_string (view_time this))
                     this)\<lparr>view_time_sent := True\<rparr>,
                 visibility_change_listener := False\<rparr>
          else t)"

text \<open>
  What the browser does to a tracked placement: a timer that is on fires, or the
  visibility of the page changes. A cleared timer and a removed listener do not run.
\<close>

datatype event = ViewportDetection view | ViewTimeCounter view | VisibilityChange view

fun step :: "event \<Rightarrow> tracking \<Rightarrow> tracking" where
  "step (ViewportDetection v) t = (if viewport_detection t then viewport_detection_tick v t else t)"
| "step (ViewTimeCounter v) t = (if view_time_counter t then view_time_counter_tick v t else t)"
| "step (VisibilityChange v) t = (if visibility_change_listener t then visibility_change v t else t)"

fun run :: "event list \<Rightarrow> tracking \<Rightarrow> tracking" where
  "run [] t = t"
| "run (e # es) t = run es (step e t)"

text \<open>The states that a run goes through, the first one included.\<close>

fun states :: "event list \<Rightarrow> tracking \<Rightarrow> tracking list" where
  "states [] t = [t]"
| "states (e # es) t = t # states es (step e t)"

text \<open>The number of times the flag \<open>view_time_sent\<close> goes from false to true.\<close>

fun sent_transitions :: "tracking list \<Rightarrow> nat" where
  "sent_transitions (a # b # ts) =
     (if \<not> view_time_sent (tracked a) \<and> view_time_sent (tracked b) then 1 else 0)
     + sent_transitions (b # ts)"
| "sent_transitions ts = 0"

section \<open>Loading the placements of a page\<close>

text \<open>
  The page and the module: the text that keyword detection reads, the elements of the
  document in document order, the module variables \<open>uplifted\<close> and
  \<open>detectedKeywords\<close>, the script elements appended to the head, the number of
  \<open>detectABP\<close> probes started, and the console.
\<close>

record page =
  page_content :: content
  page_elements :: "element list"
  uplifted :: bool
  detectedKeywords :: "string list option"
  head_scripts :: "script list"
  abp_detections :: nat
  console :: console_log

text \<open>
  \<open>load\<close> up to the promise that \<open>fetch\<close> returns: the detected keywords are added
  to those of the placement and the request is sent.
\<close>

type_synonym loading = "placement \<times> js_value promise"

definition load :: "browser \<Rightarrow> placement \<Rightarrow> page \<Rightarrow> loading \<times> page" where
  "load br this st =
     (case detectKeywords (detectedKeywords st) (page_content st) of (found, cache) \<Rightarrow>
        (let this' = this\<lparr>keyword_list := keyword_list this @ found\<rparr>
         in case fetch this' (callback_name br (length (head_scripts st))) (location br) of
              (script', promise) \<Rightarrow>
                ((this', promise),
                 st\<lparr>detectedKeywords := cache, head_scripts := head_scripts st @ [script']\<rparr>)))"

text \<open>\<open>document.querySelectorAll("[data-ea-publisher]")\<close>, as positions in the document.\<close>

definition marker_elements :: "page \<Rightarrow> nat list" where
  "marker_elements st =
     filter (\<lambda>i. getAttribute (ATTR_PREFIX @ ''publisher'') (page_elements st ! i) \<noteq> None)
       [0 ..< length (page_elements st)]"

text \<open>
  The function mapped over the elements in \<open>load_placements\<close>: \<open>index\<close> is the position
  in the array of marker elements. An entry is \<open>None\<close> where the function returns
  \<open>null\<close>.
\<close>

fun load_each :: "bool \<Rightarrow> browser \<Rightarrow> nat list \<Rightarrow> nat \<Rightarrow> page \<Rightarrow> loading option list \<times> page" where
  "load_each force_load br [] index st = ([], st)"
| "load_each force_load br (i # elements) index st =
     (case from_element (page_elements st ! i) (console st) of
        (element', console', placement') \<Rightarrow>
          (let st1 = st\<lparr>page_elements := (page_elements st)[i := element'], console := console'\<rparr>;
               st2 = (if index = 0 \<and> placement' \<noteq> None \<and> \<not> force_load
                      then st1\<lparr>abp_detections := abp_detections st1 + 1\<rparr> else st1)
           in case (case placement' of
                      None \<Rightarrow> (None, st2)
                    | Some this \<Rightarrow>
                        if force_load \<or> \<not> load_manually this
                        then (case load br this st2 of (l, st3) \<Rightarrow> (Some l, st3))
                        else (None, st2)) of
                (entry, st3) \<Rightarrow>
                  (case load_each force_load br elements (index + 1) st3 of
                     (entries, st4) \<Rightarrow> (entry # entries, st4))))"

definition load_placements ::
  "bool \<Rightarrow> browser \<Rightarrow> page \<Rightarrow> (error + loading option list) \<times> page" where
  "load_placements force_load br st =
     (let elements = marker_elements st
      in if length elements = 0 then (Inl (Error ''No ad placements found.''), st)
         else (case load_each force_load br elements 0 st of
                 (entries, st') \<Rightarrow> (Inr entries, st')))"

section \<open>The promise \<open>wait\<close>\<close>

text \<open>What the browser does with a script element: it runs the script or fires the error event.\<close>

datatype delivery = Callback "decision_response option" | ScriptError

fun deliver :: "browser \<Rightarrow> delivery \<Rightarrow> loading \<Rightarrow> loading" where
  "deliver br (Callback response') l = window_callback br response' l"
| "deliver br ScriptError l = script_error l"

text \<open>
  The promise that \<open>load\<close> returns, from the promise of \<open>fetch\<close>: the first \<open>then\<close>
  throws or returns the placement, the second one starts the tracking and returns nothing.
\<close>

definition load_promise :: "loading \<Rightarrow> js_value promise" where
  "load_promise l =
     (case l of (this, fetched) \<Rightarrow>
        (case fetched of
           Pending \<Rightarrow> Pending
         | Rejected e \<Rightarrow> Rejected e
         | Resolved v \<Rightarrow>
             (case load_display this v of
                Inl e \<Rightarrow> Rejected e
              | Inr this' \<Rightarrow> (case load_track this' of t \<Rightarrow> Resolved Undefined))))"

text \<open>
  \<open>Promise.all\<close> over the entries, with what the browser delivers to the entries in the
  order of time: it rejects with the first rejection and resolves once every entry has
  resolved. An entry that is not a promise counts as resolved with itself.
\<close>

definition entry_promise :: "loading option \<Rightarrow> js_value promise" where
  "entry_promise entry = (case entry of None \<Rightarrow> Resolved Null | Some l \<Rightarrow> load_promise l)"

fun resolved_values :: "'a promise list \<Rightarrow> 'a list option" where
  "resolved_values [] = Some []"
| "resolved_values (Resolved v # ps) = map_option (Cons v) (resolved_values ps)"
| "resolved_values (p # ps) = None"

fun promise_all :: "browser \<Rightarrow> loading option list \<Rightarrow> (nat \<times> delivery) list \<Rightarrow> js_value list promise" where
  "promise_all br entries [] =
     (case resolved_values (map entry_promise entries) of
        Some values \<Rightarrow> Resolved values
      | None \<Rightarrow> Pending)"
| "promise_all br entries ((i, d) # deliveries) =
     (if i < length entries
      then (case entries ! i of
              None \<Rightarrow> promise_all br entries deliveries
            | Some l \<Rightarrow>
                (let l' = deliver br d l
                 in case load_promise l' of
                      Rejected e \<Rightarrow> Rejected e
                    | _ \<Rightarrow> promise_all br (entries[i := Some l']) deliveries))
      else promise_all br entries deliveries)"

text \<open>
  \<open>wait\<close> once the document is ready. \<open>load_placements()\<close> is called inside a callback
  of \<open>wait_dom.then\<close>; \<open>then\<close> and \<open>catch\<close> are attached to the promise that it returns.
  When it throws instead of returning, the exception leaves the callback, \<open>resolve\<close> is
  never called and nothing is written to the console by the module.
\<close>

fun log_error :: "error \<Rightarrow> console_log" where
  "log_error (EthicalAdsWarning message) = [(ConsoleDebug, message)]"
| "log_error (Error message) = [(ConsoleError, message)]"

definition wait :: "browser \<Rightarrow> (nat \<times> delivery) list \<Rightarrow> page \<Rightarrow> js_value list promise \<times> page" where
  "wait br deliveries st =
     (case load_placements False br st of
        (Inl err, st') \<Rightarrow> (Pending, st')
      | (Inr entries, st') \<Rightarrow>
          (case promise_all br entries deliveries of
             Pending \<Rightarrow> (Pending, st')
           | Resolved placements \<Rightarrow> (resolve placements Pending, st')
           | Rejected err \<Rightarrow> (resolve [] Pending, st'\<lparr>console := console st' @ log_error err\<rparr>)))"

section \<open>Notions used in the statements\<close>

text \<open>
  How often the words of a list stand for a tag: the number of words whose normal form
  the keyword table maps to the tag. This follows the wording of the specification, not
  the histogram of the code.
\<close>

definition occurrences :: "string \<Rightarrow> string list \<Rightarrow> nat" where
  "occurrences tag ws = length (filter (\<lambda>w. map_of KEYWORDS (normalise w) = Some tag) ws)"

definition hist_get :: "hist \<Rightarrow> string \<Rightarrow> nat" where
  "hist_get h tag = (case map_of h tag of None \<Rightarrow> 0 | Some n \<Rightarrow> n)"




text \<open>
  The invariant of the view time counter: the view time is at most the maximum, and the
  timer is off once the maximum is reached.
\<close>

definition counting :: "tracking \<Rightarrow> bool" where
  "counting t \<longleftrightarrow>
     view_time (tracked t) \<le> VIEW_TIME_MAX \<and>
     (view_time (tracked t) = VIEW_TIME_MAX \<longrightarrow> \<not> view_time_counter t)"

section \<open>Example pages\<close>

definition example_response :: decision_response where
  "example_response =
     \<lparr> html = Some ''<div>ad</div>'', view_url = Some ''https://server/view'',
       view_time_url = Some ''https://server/view-time'' \<rparr>"

definition example_element :: element where
  "example_element =
     \<lparr> attributes = [(''data-ea-publisher'', ''docs'')], className = ''sidebar'',
       element_id = [], children = [] \<rparr>"

definition plain_element :: element where
  "plain_element =
     \<lparr> attributes = [(''href'', ''/index.html'')], className = ''nav'',
       element_id = ''home'', children = [Child ''Home''] \<rparr>"



definition example_options :: placement_options where
  "example_options =
     \<lparr> opt_keywords = Some [], opt_style = None, opt_campaign_types = Some [],
       opt_load_manually = False, opt_force_ad = None, opt_force_campaign = None \<rparr>"

definition example_placement :: placement where
  "example_placement =
     (Placement (Some ''docs'') ''image-v1'' example_element example_options)
       \<lparr>response := Some example_response\<rparr>"

definition example_browser :: browser where
  "example_browser =
     \<lparr> callback_name = (\<lambda>n. ''ad_'' @ decimal n), location = ''https://example.org/docs/'',
       has_firstChild = (\<lambda>markup. True) \<rparr>"

definition kubernetes_content :: content where
  "kubernetes_content =
     \<lparr> role_main = None, main_element = None,
       body = ''Kubernetes kubernetes, docker (kubernetes) KUBERNETES. kubernetes'' \<rparr>"

definition plain_content :: content where
  "plain_content = \<lparr> role_main = Some ''Welcome to the docs.'', main_element = None, body = [] \<rparr>"

definition example_page :: "element list \<Rightarrow> page" where
  "example_page es =
     \<lparr> page_content = plain_content, page_elements = es, uplifted = False,
       detectedKeywords = None, head_scripts = [], abp_detections = 0, console = [] \<rparr>"

definition visible_view :: view where
  "visible_view = \<lparr> verge_inViewport = True, visibilityState = Visible, uplift = False \<rparr>"

definition hidden_view :: view where
  "hidden_view = \<lparr> verge_inViewport = True, visibilityState = Hidden, uplift = False \<rparr>"

definition offscreen_view :: view where
  "offscreen_view = \<lparr> verge_inViewport = False, visibilityState = Visible, uplift = False \<rparr>"

text \<open>
  The example placement after 300 seconds in view, when its view time counter has reached
  the maximum and is cleared, and \<open>load\<close> called on it once more.
\<close>

definition first_load :: tracking where
  "first_load = run (replicate 300 (ViewTimeCounter visible_view)) (load_track example_placement)"

definition second_load :: tracking where
  "second_load =
     (case load_display (tracked first_load) (Element ''<div>ad</div>'') of
        Inr this \<Rightarrow> load_track this
      | Inl e \<Rightarrow> first_load)"

section \<open>Keyword detection: bounds and cache\<close>

lemma hist_count_get:
  "hist_get (hist_count t h) tag = hist_get h tag + (if t = tag then 1 else 0)"
  by (induction h) (auto simp: hist_get_def)

lemma hist_count_keys: "fst ` set (hist_count t h) = insert t (fst ` set h)"
  by (induction h) force+

lemma hist_count_distinct: "distinct (map fst h) \<Longrightarrow> distinct (map fst (hist_count t h))"
proof (induction h)
  case Nil
  then show ?case by simp
next
  case (Cons a h)
  obtain k n where a: "a = (k, n)" by (cases a)
  show ?case
  proof (cases "k = t")
    case True
    with Cons.prems a show ?thesis by simp
  next
    case False
    have "k \<notin> fst ` set (hist_count t h)"
      using Cons.prems a False by (simp add: hist_count_keys)
    with Cons a False show ?thesis by simp
  qed
qed

lemma count_words_get:
  "hist_get (count_words ws h) tag = hist_get h tag + occurrences tag ws"
  by (induction ws arbitrary: h) (auto simp: occurrences_def hist_count_get split: option.splits)

lemma count_words_distinct:
  "distinct (map fst h) \<Longrightarrow> distinct (map fst (count_words ws h))"
  by (induction ws arbitrary: h) (auto simp: hist_count_distinct split: option.splits)

lemma count_words_entry:
  assumes "(tag, n) \<in> set (count_words ws [])"
  shows "n = occurrences tag ws"
proof -
  have "distinct (map fst (count_words ws []))"
    by (rule count_words_distinct) simp
  with assms have "map_of (count_words ws []) tag = Some n"
    by simp
  then have "hist_get (count_words ws []) tag = n"
    by (simp add: hist_get_def)
  moreover have "hist_get [] tag = 0"
    by (simp add: hist_get_def)
  ultimately show ?thesis
    using count_words_get [of ws "[]" tag] by simp
qed

lemma occurrences_tag:
  assumes "0 < occurrences tag ws"
  shows "tag \<in> snd ` set KEYWORDS"
proof -
  from assms obtain w where "map_of KEYWORDS (normalise w) = Some tag"
    by (auto simp: occurrences_def filter_empty_conv)
  then have "(normalise w, tag) \<in> set KEYWORDS"
    by (rule map_of_SomeD)
  then show ?thesis
    by force
qed

lemma set_insert_by: "set (insert_by cmp x ys) = insert x (set ys)"
  by (induction ys) auto

lemma set_sort_by: "set (sort_by cmp xs) = set xs"
  by (induction xs) (auto simp: sort_by_def set_insert_by)

lemma detectKeywords_first:
  "detectKeywords None page = (scan_keywords page, Some (scan_keywords page))"
  by (simp add: detectKeywords_def Let_def)

lemma scan_keywords_length: "length (scan_keywords page) \<le> MAX_KEYWORDS"
  by (simp add: scan_keywords_def)

lemma scan_keywords_occurrences:
  assumes "tag \<in> set (scan_keywords page)"
  shows "MIN_KEYWORD_OCCURRENCES \<le> occurrences tag (page_words page)"
proof -
  from assms obtain a
    where a: "a \<in> set (take MAX_KEYWORDS (sort_by compare_counts
        (filter (\<lambda>a. snd a \<ge> MIN_KEYWORD_OCCURRENCES) (count_words (page_words page) []))))"
      and tag: "tag = fst a"
    by (auto simp: scan_keywords_def)
  from a have "a \<in> set (sort_by compare_counts
      (filter (\<lambda>a. snd a \<ge> MIN_KEYWORD_OCCURRENCES) (count_words (page_words page) [])))"
    by (rule in_set_takeD)
  then have mem: "(tag, snd a) \<in> set (count_words (page_words page) [])"
    and ge: "MIN_KEYWORD_OCCURRENCES \<le> snd a"
    using tag by (auto simp: set_sort_by)
  from mem have "snd a = occurrences tag (page_words page)"
    by (rule count_words_entry)
  with ge show ?thesis
    by simp
qed

text \<open>
  C4: the first call of \<open>detectKeywords\<close> (the cache is still \<open>null\<close>) returns at most
  3 tags, whatever the text of the page is; each of them is a tag of the keyword table,
  and at least 2 of the first 9999 words of the text stand for it.
\<close>

theorem detectKeywords_bounds:
  "length (fst (detectKeywords None page)) \<le> 3 \<and>
   (\<forall>tag \<in> set (fst (detectKeywords None page)).
      tag \<in> snd ` set KEYWORDS \<and>
      2 \<le> occurrences tag (take 9999 (split_whitespace (mainContent page))))"
proof
  show "length (fst (detectKeywords None page)) \<le> 3"
    using scan_keywords_length [of page] by (simp add: detectKeywords_first MAX_KEYWORDS_def)
  show "\<forall>tag \<in> set (fst (detectKeywords None page)).
      tag \<in> snd ` set KEYWORDS \<and>
      2 \<le> occurrences tag (take 9999 (split_whitespace (mainContent page)))"
  proof
    fix tag
    assume "tag \<in> set (fst (detectKeywords None page))"
    then have "tag \<in> set (scan_keywords page)"
      by (simp add: detectKeywords_first)
    then have "MIN_KEYWORD_OCCURRENCES \<le> occurrences tag (page_words page)"
      by (rule scan_keywords_occurrences)
    then have two: "2 \<le> occurrences tag (take 9999 (split_whitespace (mainContent page)))"
      by (simp add: MIN_KEYWORD_OCCURRENCES_def page_words_def MAX_WORDS_ANALYZED_def)
    then have "tag \<in> snd ` set KEYWORDS"
      by (intro occurrences_tag [of tag "take 9999 (split_whitespace (mainContent page))"]) simp
    with two show "tag \<in> snd ` set KEYWORDS \<and>
        2 \<le> occurrences tag (take 9999 (split_whitespace (mainContent page)))"
      by simp
  qed
qed

text \<open>
  On a page with the word kubernetes five times and docker once the result is the one tag
  \<open>kubernetes\<close>.
\<close>

lemma detectKeywords_kubernetes:
  "fst (detectKeywords None kubernetes_content) = [''kubernetes'']"
  by code_simp

theorem detectKeywords_bounds_witness:
  "fst (detectKeywords None kubernetes_content) = [''kubernetes''] \<and>
   ''kubernetes'' \<in> snd ` set KEYWORDS \<and>
   2 \<le> occurrences ''kubernetes'' (take 9999 (split_whitespace (mainContent kubernetes_content)))"
  using detectKeywords_bounds [of kubernetes_content]
  by (simp add: detectKeywords_kubernetes)

text \<open>
  C5: a call of \<open>detectKeywords\<close> that follows another one returns the list of that call
  and leaves the cache as it is, whatever the page has become in between (the page is not
  read again); a cached empty list is returned like any other.
\<close>

theorem detectKeywords_cached:
  "detectKeywords (snd (detectKeywords cache page)) page' = detectKeywords cache page \<and>
   detectKeywords (Some []) page' = ([], Some [])"
  by (cases cache) (simp_all add: detectKeywords_def Let_def)

lemma detectKeywords_plain: "detectKeywords None plain_content = ([], Some [])"
  by code_simp

theorem detectKeywords_cached_witness:
  "detectKeywords (snd (detectKeywords None plain_content)) kubernetes_content = ([], Some [])"
  using detectKeywords_cached [of None plain_content kubernetes_content]
  by (simp add: detectKeywords_plain)

section \<open>The request: no ad, blocked, and the campaign types\<close>

text \<open>
  C2: when the callback registered by \<open>fetch\<close> is called with no response, or with a
  response whose \<open>html\<close> or \<open>view_url\<close> is missing (or empty), the promise that \<open>fetch\<close>
  returned resolves with \<open>null\<close>; it is not rejected, and the placement keeps the response
  it had.
\<close>

theorem fetch_no_ad:
  assumes "response' = None \<or>
           (\<exists>r. response' = Some r \<and> (\<not> truthy (html r) \<or> \<not> truthy (view_url r)))"
  shows "window_callback br response' (this, snd (fetch this callback href))
           = (this, Resolved Null)"
  using assms by (auto simp: window_callback_def fetch_def resolve_def)

theorem fetch_no_ad_witness:
  "window_callback example_browser
     (Some \<lparr> html = None, view_url = Some ''https://server/view'', view_time_url = None \<rparr>)
     (example_placement, snd (fetch example_placement ''ad_0'' ''https://example.org/''))
   = (example_placement, Resolved Null)"
  using fetch_no_ad [where response' = "Some \<lparr> html = None,
      view_url = Some ''https://server/view'', view_time_url = None \<rparr>"
      and br = example_browser and this = example_placement
      and callback = "''ad_0''" and href = "''https://example.org/''"]
  by (simp add: truthy_def)

text \<open>
  C3: when the error event of the script element fires, the promise that \<open>fetch\<close>
  returned resolves with \<open>undefined\<close>, which is not the \<open>null\<close> of a missing ad, and
  \<open>load\<close> tells the two apart; the promise is not rejected.
\<close>

theorem fetch_blocked:
  "script_error (this, snd (fetch this callback href)) = (this, Resolved Undefined) \<and>
   Resolved Undefined \<noteq> (Resolved Null :: js_value promise) \<and>
   load_display this Undefined \<noteq> load_display this Null"
  by (simp add: script_error_def fetch_def resolve_def load_display_def)

theorem fetch_blocked_witness:
  "script_error (example_placement, snd (fetch example_placement ''ad_0'' ''https://example.org/''))
     = (example_placement, Resolved Undefined) \<and>
   load_display example_placement Undefined = Inl (EthicalAdsWarning ''Ad decision request blocked'') \<and>
   load_display example_placement Null = Inl (EthicalAdsWarning ''No ads to show.'')"
  using fetch_blocked [of example_placement "''ad_0''" "''https://example.org/''"]
  by (simp add: load_display_def)

text \<open>
  C10: a placement constructed without campaign types, or with an empty list of them,
  has the four default campaign types, and its request carries them joined by \<open>|\<close> as the
  parameter \<open>campaign_types\<close> (whatever keywords \<open>load\<close> has added before the request).
\<close>

theorem default_campaign_types:
  assumes "opt_campaign_types options' = None \<or> opt_campaign_types options' = Some []"
  shows "campaign_types (Placement publisher' ad_type' target' options')
           = [''paid'', ''publisher-house'', ''community'', ''house''] \<and>
         map_of (script_params (fst (fetch
             ((Placement publisher' ad_type' target' options')\<lparr>keyword_list := ks\<rparr>)
             callback href)))
           ''campaign_types'' = Some ''paid|publisher-house|community|house''"
  using assms by (auto simp: Placement_def fetch_def fetch_params_def Let_def)

theorem default_campaign_types_witness:
  "opt_campaign_types example_options = Some [] \<and>
   campaign_types (Placement (Some ''docs'') ''image-v1'' example_element example_options)
     = [''paid'', ''publisher-house'', ''community'', ''house''] \<and>
   map_of (script_params (fst (fetch
       ((Placement (Some ''docs'') ''image-v1'' example_element example_options)
          \<lparr>keyword_list := [''python'']\<rparr>)
       ''ad_0'' ''https://example.org/'')))
     ''campaign_types'' = Some ''paid|publisher-house|community|house''"
proof -
  have empty: "opt_campaign_types example_options = Some []"
    by (simp add: example_options_def)
  then have "opt_campaign_types example_options = None \<or> opt_campaign_types example_options = Some []"
    by simp
  from default_campaign_types [OF this] empty show ?thesis
    by simp
qed

section \<open>Marker elements\<close>














lemma marker_elements_empty:
  "(\<forall>e \<in> set (page_elements st). getAttribute (ATTR_PREFIX @ ''publisher'') e = None)
     \<Longrightarrow> marker_elements st = []"
  by (simp add: marker_elements_def filter_empty_conv)

text \<open>
  C7: on a page without any element that has the attribute \<open>data-ea-publisher\<close>,
  \<open>load_placements\<close> throws the error \<open>No ad placements found.\<close> and leaves the page
  as it was: no script element is added to the head, so that no request is made.
\<close>

theorem load_placements_no_markers:
  assumes "\<forall>e \<in> set (page_elements st). getAttribute ''data-ea-publisher'' e = None"
  shows "load_placements force_load br st = (Inl (Error ''No ad placements found.''), st) \<and>
         head_scripts (snd (load_placements force_load br st)) = head_scripts st"
proof -
  have "marker_elements st = []"
    using assms by (intro marker_elements_empty) (simp add: ATTR_PREFIX_def)
  then show ?thesis
    by (simp add: load_placements_def)
qed

theorem load_placements_no_markers_witness:
  "getAttribute ''data-ea-publisher'' plain_element = None \<and>
   load_placements False example_browser (example_page [plain_element])
     = (Inl (Error ''No ad placements found.''), example_page [plain_element])"
proof -
  have none: "getAttribute ''data-ea-publisher'' plain_element = None"
    by (simp add: getAttribute_def plain_element_def)
  then have "\<forall>e \<in> set (page_elements (example_page [plain_element])).
      getAttribute ''data-ea-publisher'' e = None"
    by (simp add: example_page_def)
  from load_placements_no_markers [OF this, of False example_browser] none show ?thesis
    by simp
qed

section \<open>Tracking the view time\<close>

lemma step_sent_mono:
  "view_time_sent (tracked t) \<Longrightarrow> view_time_sent (tracked (step e t))"
  by (cases e)
     (auto simp: viewport_detection_tick_def view_time_counter_tick_def visibility_change_def
        append_pixel_def Let_def split: option.splits)

lemma step_sent_only:
  assumes "\<not> view_time_sent (tracked t)" and "view_time_sent (tracked (step e t))"
  shows "0 < view_time (tracked t) \<and>
         (\<exists>r. response (tracked t) = Some r \<and> truthy (view_time_url r))"
  using assms
  by (cases e)
     (auto simp: viewport_detection_tick_def view_time_counter_tick_def visibility_change_def
        append_pixel_def Let_def split: option.splits if_splits)

lemma sent_transitions_after:
  "view_time_sent (tracked t) \<Longrightarrow> sent_transitions (states es t) = 0"
proof (induction es arbitrary: t)
  case Nil
  then show ?case by simp
next
  case (Cons e es)
  have "view_time_sent (tracked (step e t))"
    using Cons.prems by (rule step_sent_mono)
  then have "sent_transitions (states es (step e t)) = 0"
    by (rule Cons.IH)
  then show ?case
    using Cons.prems by (cases es) simp_all
qed

lemma sent_transitions_le: "sent_transitions (states es t) \<le> 1"
proof (induction es arbitrary: t)
  case Nil
  then show ?case by simp
next
  case (Cons e es)
  show ?case
  proof (cases "\<not> view_time_sent (tracked t) \<and> view_time_sent (tracked (step e t))")
    case True
    then have "sent_transitions (states es (step e t)) = 0"
      by (simp add: sent_transitions_after)
    then show ?thesis
      by (cases es) simp_all
  next
    case False
    then have "sent_transitions (states (e # es) t) = sent_transitions (states es (step e t))"
      by (cases es) auto
    with Cons.IH show ?thesis by simp
  qed
qed

text \<open>
  C1: from any state of a tracked placement and under any sequence of timer callbacks
  and visibility changes, the flag \<open>view_time_sent\<close> goes from false to true at most
  once; and a step that sets it starts from a positive view time and a response with a
  view time URL.
\<close>

theorem view_time_sent_once:
  "sent_transitions (states events t) \<le> 1 \<and>
   (\<not> view_time_sent (tracked t) \<and> view_time_sent (tracked (step e t)) \<longrightarrow>
      0 < view_time (tracked t) \<and>
      (\<exists>r. response (tracked t) = Some r \<and> truthy (view_time_url r)))"
  using sent_transitions_le step_sent_only by blast

lemma example_sent_once:
  "sent_transitions (states
     [ViewTimeCounter visible_view, VisibilityChange hidden_view, ViewTimeCounter visible_view,
      VisibilityChange hidden_view] (load_track example_placement)) = 1"
  by code_simp

lemma example_sent_step:
  "\<not> view_time_sent (tracked (run [ViewTimeCounter visible_view] (load_track example_placement))) \<and>
   view_time_sent (tracked (step (VisibilityChange hidden_view)
     (run [ViewTimeCounter visible_view] (load_track example_placement))))"
  by code_simp

theorem view_time_sent_once_witness:
  "sent_transitions (states
     [ViewTimeCounter visible_view, VisibilityChange hidden_view, ViewTimeCounter visible_view,
      VisibilityChange hidden_view] (load_track example_placement)) = 1 \<and>
   \<not> view_time_sent (tracked (run [ViewTimeCounter visible_view] (load_track example_placement))) \<and>
   view_time_sent (tracked (step (VisibilityChange hidden_view)
     (run [ViewTimeCounter visible_view] (load_track example_placement)))) \<and>
   0 < view_time (tracked (run [ViewTimeCounter visible_view] (load_track example_placement)))"
  using view_time_sent_once [where events = "[]"
      and t = "run [ViewTimeCounter visible_view] (load_track example_placement)"
      and e = "VisibilityChange hidden_view"]
    example_sent_once example_sent_step
  by blast

lemma counting_step: "counting t \<Longrightarrow> counting (step e t)"
  by (cases e)
     (auto simp: counting_def viewport_detection_tick_def view_time_counter_tick_def
        visibility_change_def append_pixel_def Let_def VIEW_TIME_INTERVAL_def VIEW_TIME_MAX_def
        split: option.splits)

lemma counting_run: "counting t \<Longrightarrow> counting (run es t)"
  by (induction es arbitrary: t) (auto simp: counting_step)

lemma counting_load_track: "view_time this < VIEW_TIME_MAX \<Longrightarrow> counting (load_track this)"
  by (simp add: counting_def load_track_def)

text \<open>
  C9, as it is stated, fails twice. After the viewed pixel has been sent (the timer
  \<open>viewport_detection\<close> has appended the pixel and is cleared), the timer
  \<open>view_time_counter\<close> is still on and goes on adding to the view time. And the view time
  can exceed the maximum: when the counter has reached 300 and is cleared, and \<open>load\<close>
  is called once more on the same placement, the new counter adds the interval before it
  tests the maximum, which gives 301.
\<close>

theorem view_time_counter_after_viewed_pixel:
  "children (target (tracked (run [ViewportDetection visible_view] (load_track example_placement))))
     = [Pixel ''https://server/view''] \<and>
   \<not> viewport_detection (run [ViewportDetection visible_view] (load_track example_placement)) \<and>
   view_time_counter (run [ViewportDetection visible_view, ViewTimeCounter visible_view]
     (load_track example_placement)) \<and>
   view_time (tracked (run [ViewportDetection visible_view, ViewTimeCounter visible_view,
     ViewTimeCounter visible_view] (load_track example_placement))) = 2 \<and>
   view_time (tracked first_load) = 300 \<and>
   \<not> view_time_counter first_load \<and>
   view_time (tracked (run [ViewTimeCounter visible_view] second_load)) = 301"
  by code_simp

text \<open>
  C9, amended: the callback of the timer \<open>view_time_counter\<close> clears the timer, and does
  nothing else, once the view time has been sent (\<open>view_time_sent\<close>). Otherwise, when the
  ad is in the viewport and the page visible, it adds the interval to the view time, and
  clears the timer when the view time has reached the maximum, without sending anything:
  the flag \<open>view_time_sent\<close> stays false and the target is not touched. Otherwise it does
  nothing. With the timers of one call of \<open>load\<close>, on a placement whose view time is below
  the maximum when they start (it is 0 after construction), the view time never exceeds
  the maximum.
\<close>

theorem view_time_counter_stops:
  "(view_time_sent (tracked t) \<longrightarrow>
      view_time_counter_tick v t = t\<lparr>view_time_counter := False\<rparr>) \<and>
   (\<not> view_time_sent (tracked t) \<and> inViewport (tracked t) v \<longrightarrow>
      view_time (tracked (view_time_counter_tick v t)) = view_time (tracked t) + VIEW_TIME_INTERVAL \<and>
      view_time_counter (view_time_counter_tick v t) =
        (view_time_counter t \<and> view_time (tracked t) + VIEW_TIME_INTERVAL < VIEW_TIME_MAX) \<and>
      \<not> view_time_sent (tracked (view_time_counter_tick v t)) \<and>
      target (tracked (view_time_counter_tick v t)) = target (tracked t)) \<and>
   (\<not> view_time_sent (tracked t) \<and> \<not> inViewport (tracked t) v \<longrightarrow>
      view_time_counter_tick v t = t) \<and>
   (view_time this < VIEW_TIME_MAX \<longrightarrow>
      view_time (tracked (run events (load_track this))) \<le> VIEW_TIME_MAX)"
proof (intro conjI impI)
  assume "view_time this < VIEW_TIME_MAX"
  then have "counting (run events (load_track this))"
    by (intro counting_run counting_load_track)
  then show "view_time (tracked (run events (load_track this))) \<le> VIEW_TIME_MAX"
    by (simp add: counting_def)
qed (auto simp: view_time_counter_tick_def Let_def)

lemma example_counter_premises:
  "view_time_sent (tracked (run [ViewTimeCounter visible_view, VisibilityChange hidden_view]
     (load_track example_placement))) \<and>
   \<not> view_time_sent (tracked (load_track example_placement)) \<and>
   inViewport (tracked (load_track example_placement)) visible_view \<and>
   \<not> inViewport (tracked (load_track example_placement)) offscreen_view \<and>
   view_time example_placement < VIEW_TIME_MAX"
  by code_simp

lemma example_counter_cap:
  "view_time (tracked (run (replicate 305 (ViewTimeCounter visible_view))
     (load_track example_placement))) = 300 \<and>
   \<not> view_time_counter (run (replicate 305 (ViewTimeCounter visible_view))
     (load_track example_placement)) \<and>
   \<not> view_time_sent (tracked (run (replicate 305 (ViewTimeCounter visible_view))
     (load_track example_placement)))"
  by code_simp

theorem view_time_counter_stops_witness:
  "view_time_sent (tracked (run [ViewTimeCounter visible_view, VisibilityChange hidden_view]
     (load_track example_placement))) \<and>
   \<not> view_time_counter (view_time_counter_tick visible_view
     (run [ViewTimeCounter visible_view, VisibilityChange hidden_view]
       (load_track example_placement))) \<and>
   \<not> view_time_sent (tracked (load_track example_placement)) \<and>
   inViewport (tracked (load_track example_placement)) visible_view \<and>
   view_time (tracked (view_time_counter_tick visible_view (load_track example_placement)))
     = view_time (tracked (load_track example_placement)) + VIEW_TIME_INTERVAL \<and>
   \<not> inViewport (tracked (load_track example_placement)) offscreen_view \<and>
   view_time_counter_tick offscreen_view (load_track example_placement)
     = load_track example_placement \<and>
   view_time example_placement < VIEW_TIME_MAX \<and>
   view_time (tracked (run (replicate 305 (ViewTimeCounter visible_view))
     (load_track example_placement))) \<le> VIEW_TIME_MAX"
proof -
  note p = example_counter_premises
  have a: "\<not> view_time_counter (view_time_counter_tick visible_view
     (run [ViewTimeCounter visible_view, VisibilityChange hidden_view]
       (load_track example_placement)))"
    using view_time_counter_stops [where v = visible_view
        and t = "run [ViewTimeCounter visible_view, VisibilityChange hidden_view]
          (load_track example_placement)"] p
    by simp
  have b: "view_time (tracked (view_time_counter_tick visible_view (load_track example_placement)))
     = view_time (tracked (load_track example_placement)) + VIEW_TIME_INTERVAL"
    using view_time_counter_stops [where v = visible_view
        and t = "load_track example_placement"] p
    by blast
  have c: "view_time_counter_tick offscreen_view (load_track example_placement)
     = load_track example_placement"
    using view_time_counter_stops [where v = offscreen_view
        and t = "load_track example_placement"] p
    by blast
  have d: "view_time (tracked (run (replicate 305 (ViewTimeCounter visible_view))
     (load_track example_placement))) \<le> VIEW_TIME_MAX"
    using view_time_counter_stops [where this = example_placement
        and events = "replicate 305 (ViewTimeCounter visible_view)"] p
    by blast
  from a b c d p show ?thesis
    by blast
qed

section \<open>The promise \<open>wait\<close> on a page without marker elements\<close>

text \<open>
  \<open>wait\<close> is never rejected; but without marker elements it is never resolved either.
\<close>

lemma wait_never_rejects: "fst (wait br deliveries st) \<noteq> Rejected e"
  by (auto simp: wait_def resolve_def split: prod.splits sum.splits promise.splits)

lemma wait_no_markers:
  "marker_elements st = [] \<Longrightarrow> wait br deliveries st = (Pending, st)"
  by (simp add: wait_def load_placements_def)

text \<open>
  C6: on a page without marker elements \<open>wait\<close> stays pending: it does not resolve with
  an empty list, and nothing is written to the console. And where the one placement of a
  page has loaded, \<open>wait\<close> resolves with a list that holds \<open>undefined\<close>, not the
  placement.
\<close>

theorem wait_without_markers:
  "wait example_browser [] (example_page []) = (Pending, example_page []) \<and>
   fst (wait example_browser [(0, Callback (Some example_response))] (example_page [example_element]))
     = Resolved [Undefined]"
  by code_simp

end
